theory Spec2Isabelle
  imports Main
begin

section \<open>JavaScript values, errors and futures\<close>

text \<open>
  The values of \<^verbatim>\<open>lib/database.js\<close> that the properties below depend on. A function
  value carries its \<^verbatim>\<open>tag\<close> property, its \<^verbatim>\<open>name\<close> and an identity; an object is
  known by its identity only. Numbers are the integers (transaction levels, row fields).
\<close>

datatype jsval =
    JUndefined
  | JNull
  | JBool bool
  | JNum int
  | JStr string
  | JArr "jsval list"
  | JObj nat
  | JFunc (fn_tag: jsval) (fn_name: string) (fn_id: nat)

text \<open>\<^verbatim>\<open>typeof v === 'function'\<close>\<close>

fun is_function :: "jsval \<Rightarrow> bool" where
  "is_function (JFunc t n i) = True"
| "is_function v = False"

text \<open>
  The errors of the source: \<^verbatim>\<open>new TypeError(msg)\<close>, \<^verbatim>\<open>new Error(msg)\<close>, the
  cardinality error of the result masker, and any error value that comes from a
  collaborator (pool, driver, user callback), which the code passes on untouched.
\<close>

datatype error =
    TypeError string
  | Error string
  | QueryResultError string
  | External string

text \<open>
  A future is modelled by the way it settles. A call completes by returning a value or
  by throwing synchronously; the two are kept apart, as a synchronous throw is not a
  rejected future.
\<close>

datatype 'a promise = Resolved 'a | Rejected error

datatype 'a completion = Returns 'a | Throws error

text \<open>
  \<^verbatim>\<open>p.then(f)\<close> and \<^verbatim>\<open>p.catch(g)\<close>, with the state \<open>'s\<close> that the handlers read
  and change threaded through. A handler that throws, or returns a rejected future,
  yields \<open>Rejected\<close>; one that returns a value, or a future that resolves, yields
  \<open>Resolved\<close>.
\<close>

definition then_p ::
  "'a promise \<times> 's \<Rightarrow> ('a \<Rightarrow> 's \<Rightarrow> 'b promise \<times> 's) \<Rightarrow> 'b promise \<times> 's" where
  "then_p ps f = (case fst ps of Resolved v \<Rightarrow> f v (snd ps) | Rejected e \<Rightarrow> (Rejected e, snd ps))"

definition catch_p ::
  "'a promise \<times> 's \<Rightarrow> (error \<Rightarrow> 's \<Rightarrow> 'a promise \<times> 's) \<Rightarrow> 'a promise \<times> 's" where
  "catch_p ps g = (case fst ps of Resolved v \<Rightarrow> (Resolved v, snd ps) | Rejected e \<Rightarrow> g e (snd ps))"

text \<open>The value of a call made inside a \<^verbatim>\<open>then\<close> handler: a throw rejects.\<close>

fun settle :: "'a promise completion \<Rightarrow> 'a promise" where
  "settle (Returns p) = p"
| "settle (Throws e) = Rejected e"

section \<open>Connection context\<close>

text \<open>
  The object that the pool hands out (\<^verbatim>\<open>db\<close> in the source): the client, known by
  its identity, and the \<^verbatim>\<open>isFresh\<close> flag; \<^verbatim>\<open>db.done()\<close> gives it back.
\<close>

record dbconn =
  client :: nat
  isFresh :: bool

record options =
  noWarnings :: bool

text \<open>
  A query descriptor is the first argument of a query method, or the object
  \<^verbatim>\<open>{funcName: funcName}\<close> that \<^verbatim>\<open>func\<close> builds. The formatting parameters
  (\<^verbatim>\<open>values\<close>) are handed to the formatter untouched and are left out.

  What the code does to its collaborators, in the order it does it: a request to the
  connection module (\<^verbatim>\<open>'pool'\<close> or \<^verbatim>\<open>'direct'\<close>), the release of a client, a
  statement sent on a client.
\<close>

datatype qdesc = Query jsval | FuncName jsval

datatype event =
    Acquire string
  | Release nat
  | Execute nat qdesc

text \<open>
  The fields of \<^verbatim>\<open>new $npm.context(cn, dc, config.options)\<close> that this file reads and
  writes: \<^verbatim>\<open>cn\<close>, \<^verbatim>\<open>dc\<close>, \<^verbatim>\<open>options\<close>, \<^verbatim>\<open>db\<close> (\<open>None\<close> when no
  connection is bound), \<^verbatim>\<open>txLevel\<close> (\<open>None\<close> when \<^verbatim>\<open>undefined\<close>), \<^verbatim>\<open>context\<close>
  and \<^verbatim>\<open>cb\<close>.
\<close>

record cnContext =
  cn :: jsval
  dc :: jsval
  options :: options
  db :: "dbconn option"
  txLevel :: "int option"
  "context" :: "jsval option"
  cb :: jsval

text \<open>
  Modelled from the spec: the class of module \<^verbatim>\<open>./cnContext\<close> is not among the
  sources. A context is created from the handle's connection parameters with no
  connection bound and outside any transaction.
\<close>

definition createContext :: "jsval \<Rightarrow> jsval \<Rightarrow> options \<Rightarrow> cnContext" where
  "createContext c d opts =
     \<lparr>cn = c, dc = d, options = opts, db = None, txLevel = None, context = None, cb = JUndefined\<rparr>"

text \<open>
  Modelled from the spec: \<^verbatim>\<open>clone\<close> of module \<^verbatim>\<open>./cnContext\<close>. The clone inherits
  target descriptor, database-context tag and options, and has a connection binding and
  a nesting level of its own, which start at the parent's values: the engine reuses the
  connection that the calling context holds and counts the nesting depth on the clone,
  and \<^verbatim>\<open>taskProcessor\<close> reads \<^verbatim>\<open>taskCtx.db\<close> and \<^verbatim>\<open>taskCtx.txLevel\<close> right after
  cloning. The back-reference and the callback are not inherited.
\<close>

definition clone :: "cnContext \<Rightarrow> cnContext" where
  "clone ctx =
     \<lparr>cn = cn ctx, dc = dc ctx, options = options ctx, db = db ctx, txLevel = txLevel ctx,
      context = None, cb = JUndefined\<rparr>"

text \<open>
  Modelled from the spec: \<^verbatim>\<open>connect\<close> of module \<^verbatim>\<open>./cnContext\<close> binds the obtained
  connection into the context, which marks it connected.
\<close>

definition connect :: "cnContext \<Rightarrow> dbconn \<Rightarrow> cnContext" where
  "connect ctx d = ctx\<lparr>db := Some d\<rparr>"

text \<open>
  Modelled from the spec: \<^verbatim>\<open>disconnect\<close> of module \<^verbatim>\<open>./cnContext\<close> returns the
  bound connection and leaves the context not connected (the handle is non-null if and
  only if the context is connected). On a context with nothing bound it does nothing:
  the \<^verbatim>\<open>catch\<close> handlers of \<^verbatim>\<open>query\<close> and \<^verbatim>\<open>taskProcessor\<close> call it after a
  failed acquisition, and the acquisition error is propagated unchanged.
\<close>

definition disconnect :: "cnContext \<Rightarrow> cnContext \<times> event list" where
  "disconnect ctx =
     (case db ctx of
        Some d \<Rightarrow> (ctx\<lparr>db := None\<rparr>, [Release (client d)])
      | None \<Rightarrow> (ctx, []))"

section \<open>Collaborators\<close>

text \<open>
  The task object \<^verbatim>\<open>new config.$npm.task(taskCtx, tag, isTX, config)\<close> as far as
  \<^verbatim>\<open>taskProcessor\<close> sets it up: the tag, the mode, and \<^verbatim>\<open>tsk.ctx.isFresh\<close>.
\<close>

record task =
  tsk_tag :: jsval
  tsk_isTX :: bool
  tsk_isFresh :: "bool option"

text \<open>
  The modules that are used through \<^verbatim>\<open>config.$npm\<close> and are not among the sources are
  parameters of the model:
  \<^item> \<open>pool\<close>, \<open>direct\<close>: how \<^verbatim>\<open>config.$npm.connect.pool(ctx)\<close> and
    \<^verbatim>\<open>config.$npm.connect.direct(ctx)\<close> settle;
  \<^item> \<open>exec\<close>: \<^verbatim>\<open>config.$npm.task.exec(taskCtx, tsk, isTX, config)\<close>, which runs the
    callback and the transaction control statements: the statements it sends on the
    bound connection, and how the call completes;
  \<^item> \<open>driver\<close>: the answer of the database to a statement sent on a client: the rows,
    or an execution error;
  \<^item> \<open>raw\<close>, \<open>streaming\<close>: how a statement settles in the two modes that return no
    row set (the result envelope, the streaming collaborator);
  \<^item> \<open>call\<close>: \<^verbatim>\<open>f.call(thisArg, x)\<close> for a function value \<open>f\<close>: the value it
    returns, or what it throws.
\<close>

record npm =
  pool :: "cnContext \<Rightarrow> dbconn promise"
  direct :: "cnContext \<Rightarrow> dbconn promise"
  exec :: "cnContext \<Rightarrow> task \<Rightarrow> bool \<Rightarrow> qdesc list \<times> jsval promise completion"
  driver :: "nat \<Rightarrow> qdesc \<Rightarrow> error + jsval list"
  raw :: "nat \<Rightarrow> qdesc \<Rightarrow> jsval promise"
  streaming :: "nat \<Rightarrow> qdesc \<Rightarrow> jsval promise"
  call :: "jsval \<Rightarrow> jsval \<Rightarrow> jsval \<Rightarrow> jsval completion"

section \<open>Task and transaction engine\<close>

text \<open>
  \<^verbatim>\<open>taskCtx.txLevel = taskCtx.txLevel >= 0 ? (taskCtx.txLevel + 1) : 0\<close>;
  \<^verbatim>\<open>undefined >= 0\<close> is false.
\<close>

definition nextLevel :: "int option \<Rightarrow> int" where
  "nextLevel l = (case l of Some n \<Rightarrow> if n \<ge> 0 then n + 1 else 0 | None \<Rightarrow> 0)"

text \<open>
  The part of \<^verbatim>\<open>taskProcessor\<close> before the callback is looked at: clone the context,
  set the nesting level, the calling context and the callback. The result is the task
  context and the tag given in front of the callback (\<^verbatim>\<open>undefined\<close> when none was).
\<close>

definition taskEnter ::
  "cnContext \<Rightarrow> jsval \<Rightarrow> jsval \<Rightarrow> jsval \<Rightarrow> jsval \<Rightarrow> bool \<Rightarrow> cnContext \<times> jsval" where
  "taskEnter ctx obj this p1 p2 isTX =
     (let taskCtx = clone ctx;
          taskCtx = (if isTX then taskCtx\<lparr>txLevel := Some (nextLevel (txLevel taskCtx))\<rparr>
                     else taskCtx);
          taskCtx = (if this \<noteq> obj then taskCtx\<lparr>context := Some this\<rparr> else taskCtx);
          taskCtx = taskCtx\<lparr>cb := p1\<rparr>
      in if p2 \<noteq> JUndefined then (taskCtx\<lparr>cb := p2\<rparr>, p1) else (taskCtx, JUndefined))"

text \<open>The tag of the task when none was given: \<^verbatim>\<open>cb.tag\<close>, else a non-empty \<^verbatim>\<open>cb.name\<close>.\<close>

definition resolveTag :: "jsval \<Rightarrow> jsval \<Rightarrow> jsval" where
  "resolveTag tag f =
     (if tag = JUndefined then
        (if fn_tag f \<noteq> JUndefined then fn_tag f
         else if fn_name f \<noteq> [] then JStr (fn_name f) else JUndefined)
      else tag)"

text \<open>
  \<^verbatim>\<open>taskProcessor(p1, p2, isTX)\<close>, called with \<^verbatim>\<open>this\<close> on the protocol object
  \<open>obj\<close> that closes over \<open>ctx\<close>. The result is how the call completes, the task
  context as the call leaves it, and what was done to the collaborators, in order.
  The call \<^verbatim>\<open>extend(taskCtx, tsk)\<close> builds the operations of the task object (see
  \<open>extend\<close> below) and reaches no connection; it is left out here.
\<close>

definition taskProcessor ::
  "npm \<Rightarrow> cnContext \<Rightarrow> jsval \<Rightarrow> jsval \<Rightarrow> jsval \<Rightarrow> jsval \<Rightarrow> bool
     \<Rightarrow> jsval promise completion \<times> cnContext \<times> event list" where
  "taskProcessor m ctx obj this p1 p2 isTX =
     (let (taskCtx, tag) = taskEnter ctx obj this p1 p2 isTX;
          f = cb taskCtx
      in if \<not> is_function f then
           (Returns (Rejected (TypeError (''Callback function is required for the '' @
              (if isTX then ''transaction.'' else ''task.'')))), taskCtx, [])
         else
           (let tsk = \<lparr>tsk_tag = resolveTag tag f, tsk_isTX = isTX, tsk_isFresh = None\<rparr>
            in case db taskCtx of
                 Some d \<Rightarrow>
                   (let (stmts, r) = exec m taskCtx (tsk\<lparr>tsk_isFresh := Some (isFresh d)\<rparr>) isTX
                    in (r, taskCtx, map (Execute (client d)) stmts))
               | None \<Rightarrow>
                   (let q0 = (pool m taskCtx, (taskCtx, [Acquire ''pool'']));
                        q1 = then_p q0 (\<lambda>d (c, evs).
                               (let c' = connect c d;
                                    (stmts, r) = exec m c' (tsk\<lparr>tsk_isFresh := Some (isFresh d)\<rparr>) isTX
                                in (settle r, (c', evs @ map (Execute (client d)) stmts))));
                        q2 = then_p q1 (\<lambda>data (c, evs).
                               (let (c', rel) = disconnect c in (Resolved data, (c', evs @ rel))));
                        q3 = catch_p q2 (\<lambda>e (c, evs).
                               (let (c', rel) = disconnect c in (Rejected e, (c', evs @ rel))))
                    in (Returns (fst q3), snd q3))))"

text \<open>\<^verbatim>\<open>obj.task\<close> and \<^verbatim>\<open>obj.tx\<close>\<close>

definition obj_task ::
  "npm \<Rightarrow> cnContext \<Rightarrow> jsval \<Rightarrow> jsval \<Rightarrow> jsval \<Rightarrow> jsval
     \<Rightarrow> jsval promise completion \<times> cnContext \<times> event list" where
  "obj_task m ctx obj this p1 p2 = taskProcessor m ctx obj this p1 p2 False"

definition obj_tx ::
  "npm \<Rightarrow> cnContext \<Rightarrow> jsval \<Rightarrow> jsval \<Rightarrow> jsval \<Rightarrow> jsval
     \<Rightarrow> jsval promise completion \<times> cnContext \<times> event list" where
  "obj_tx m ctx obj this p1 p2 = taskProcessor m ctx obj this p1 p2 True"

section \<open>Result masks and query execution\<close>

text \<open>
  Modelled from the spec: the masks of module \<^verbatim>\<open>./result\<close> are bit flags, and
  \<^verbatim>\<open>a | b\<close> is the union of the flags. \<^verbatim>\<open>any\<close> is every flag. The two modes of
  \<^verbatim>\<open>$npm.special.cache\<close> stand for themselves.
\<close>

datatype qrm_flag = result_one | result_many | result_none

datatype mask = Mask "qrm_flag set" | ResultQuery | StreamQuery

definition result_any :: "qrm_flag set" where
  "result_any = {result_one, result_many, result_none}"

text \<open>
  Modelled from the spec: the result masker, part of module \<^verbatim>\<open>./query\<close>. The row
  count is the only signal; the table of the operations fixes the outcome: no row
  resolves with \<^verbatim>\<open>null\<close> (an empty array when many rows are allowed) if the mask
  allows none; one row resolves with the row (as an array when many are allowed);
  several rows resolve with the array if the mask allows many. The messages are the
  ones that the documentation of \<^verbatim>\<open>none\<close>, \<^verbatim>\<open>one\<close> and \<^verbatim>\<open>many\<close> gives.
\<close>

definition mask_rows :: "qrm_flag set \<Rightarrow> jsval list \<Rightarrow> jsval promise" where
  "mask_rows q rows =
     (case rows of
        [] \<Rightarrow>
          if result_none \<in> q then Resolved (if result_many \<in> q then JArr [] else JNull)
          else Rejected (QueryResultError ''No data returned from the query.'')
      | [r] \<Rightarrow>
          if result_many \<in> q then Resolved (JArr rows)
          else if result_one \<in> q then Resolved r
          else Rejected (QueryResultError ''No return data was expected.'')
      | r # r' # rs \<Rightarrow>
          if result_many \<in> q then Resolved (JArr rows)
          else if result_one \<in> q then Rejected (QueryResultError ''Multiple rows were not expected.'')
          else Rejected (QueryResultError ''No return data was expected.''))"

text \<open>
  Modelled from the spec: \<^verbatim>\<open>config.$npm.query.call(this, ctx, query, values, qrm)\<close>
  of module \<^verbatim>\<open>./query\<close>. On a context that is not connected it rejects without
  contacting the database. Otherwise the statement is sent on the bound connection; an
  execution error is passed on unchanged, and a row set goes through the masker. The
  mask defaults to \<^verbatim>\<open>any\<close>.
\<close>

definition npm_query ::
  "npm \<Rightarrow> cnContext \<Rightarrow> qdesc \<Rightarrow> mask option \<Rightarrow> jsval promise \<times> event list" where
  "npm_query m ctx query qrm =
     (case db ctx of
        None \<Rightarrow> (Rejected (Error ''Cannot execute a query on a disconnected client.''), [])
      | Some d \<Rightarrow>
          ((case (case qrm of None \<Rightarrow> Mask result_any | Some k \<Rightarrow> k) of
              Mask q \<Rightarrow>
                (case driver m (client d) query of
                   Inl e \<Rightarrow> Rejected e
                 | Inr rows \<Rightarrow> mask_rows q rows)
            | ResultQuery \<Rightarrow> raw m (client d) query
            | StreamQuery \<Rightarrow> streaming m (client d) query),
           [Execute (client d) query]))"

section \<open>The root handle and the connection handle\<close>

text \<open>
  \<^verbatim>\<open>Database.query\<close> of the root handle created for \<open>c\<close>, \<open>d\<close> and \<open>opts\<close>:
  a context of its own, a connection from the pool, the query, and the release in
  both handlers. The result is the way the returned future settles, the context as
  the call leaves it, and what was done to the collaborators.
\<close>

definition Database_query ::
  "npm \<Rightarrow> jsval \<Rightarrow> jsval \<Rightarrow> options \<Rightarrow> qdesc \<Rightarrow> mask option
     \<Rightarrow> jsval promise \<times> cnContext \<times> event list" where
  "Database_query m c d opts query qrm =
     (let ctx = createContext c d opts;
          q0 = (pool m ctx, (ctx, [Acquire ''pool'']));
          q1 = then_p q0 (\<lambda>dbc (x, evs).
                 (let x' = connect x dbc;
                      (r, ev) = npm_query m x' query qrm
                  in (r, (x', evs @ ev))));
          q2 = then_p q1 (\<lambda>data (x, evs).
                 (let (x', rel) = disconnect x in (Resolved data, (x', evs @ rel))));
          q3 = catch_p q2 (\<lambda>e (x, evs).
                 (let (x', rel) = disconnect x in (Rejected e, (x', evs @ rel))))
      in q3)"

text \<open>
  The two methods of the object \<^verbatim>\<open>self\<close> that \<^verbatim>\<open>Database.connect\<close> builds around
  its context \<open>ctx\<close>. \<^verbatim>\<open>!ctx.db\<close> holds when no connection is bound.
\<close>

definition self_query ::
  "npm \<Rightarrow> cnContext \<Rightarrow> qdesc \<Rightarrow> mask option \<Rightarrow> jsval promise completion \<times> event list" where
  "self_query m ctx query qrm =
     (if db ctx = None then
        (Throws (Error ''Cannot execute a query on a disconnected client.''), [])
      else (let (r, ev) = npm_query m ctx query qrm in (Returns r, ev)))"

definition self_done :: "cnContext \<Rightarrow> (cnContext \<times> event list) completion" where
  "self_done ctx =
     (if db ctx = None then Throws (Error ''Cannot invoke done() on a disconnected client.'')
      else Returns (disconnect ctx))"

section \<open>Operations of the protocol\<close>

text \<open>
  The operations that \<^verbatim>\<open>extend\<close> attaches call \<^verbatim>\<open>obj.query\<close>, which is
  \<^verbatim>\<open>Database.query\<close> on the root handle and \<^verbatim>\<open>self.query\<close> on a connection handle.
  The query method of the object is the argument \<open>qf\<close>.
\<close>

type_synonym queryfn = "qdesc \<Rightarrow> mask option \<Rightarrow> jsval promise completion \<times> event list"

definition root_query :: "npm \<Rightarrow> jsval \<Rightarrow> jsval \<Rightarrow> options \<Rightarrow> queryfn" where
  "root_query m c d opts query qrm =
     (let (r, x, evs) = Database_query m c d opts query qrm in (Returns r, evs))"

text \<open>\<^verbatim>\<open>v.then(k)\<close> on what a call returned; a call that threw has returned nothing.\<close>

definition chain ::
  "jsval promise completion \<times> event list \<Rightarrow> (jsval \<Rightarrow> jsval promise)
     \<Rightarrow> jsval promise completion \<times> event list" where
  "chain r k =
     (case fst r of
        Returns (Resolved data) \<Rightarrow> (Returns (k data), snd r)
      | Returns (Rejected e) \<Rightarrow> (Returns (Rejected e), snd r)
      | Throws e \<Rightarrow> (Throws e, snd r))"

text \<open>
  Calling a value: a value that is not a function cannot be called. Inside a
  \<^verbatim>\<open>then\<close> handler a throw rejects.
\<close>

definition invoke :: "npm \<Rightarrow> jsval \<Rightarrow> jsval \<Rightarrow> jsval \<Rightarrow> jsval completion" where
  "invoke m f thisArg x =
     (if is_function f then call m f thisArg x else Throws (TypeError ''cb is not a function''))"

fun handler :: "jsval completion \<Rightarrow> jsval promise" where
  "handler (Returns v) = Resolved v"
| "handler (Throws e) = Rejected e"

text \<open>
  \<^verbatim>\<open>singleValue(value, cb, thisArg)\<close>, applied to a future that the query method
  returned.
\<close>

definition singleValue ::
  "npm \<Rightarrow> jsval promise completion \<times> event list \<Rightarrow> jsval \<Rightarrow> jsval
     \<Rightarrow> jsval promise completion \<times> event list" where
  "singleValue m v f thisArg =
     (if is_function f then chain v (\<lambda>data. handler (call m f thisArg data)) else v)"

definition obj_none :: "queryfn \<Rightarrow> qdesc \<Rightarrow> jsval promise completion \<times> event list" where
  "obj_none qf query = qf query (Some (Mask {result_none}))"

definition obj_one ::
  "npm \<Rightarrow> queryfn \<Rightarrow> qdesc \<Rightarrow> jsval \<Rightarrow> jsval \<Rightarrow> jsval promise completion \<times> event list" where
  "obj_one m qf query f thisArg =
     (let v = qf query (Some (Mask {result_one})) in singleValue m v f thisArg)"

definition obj_many :: "queryfn \<Rightarrow> qdesc \<Rightarrow> jsval promise completion \<times> event list" where
  "obj_many qf query = qf query (Some (Mask {result_many}))"

definition obj_oneOrNone ::
  "npm \<Rightarrow> queryfn \<Rightarrow> qdesc \<Rightarrow> jsval \<Rightarrow> jsval \<Rightarrow> jsval promise completion \<times> event list" where
  "obj_oneOrNone m qf query f thisArg =
     (let v = qf query (Some (Mask ({result_one} \<union> {result_none}))) in singleValue m v f thisArg)"

definition obj_manyOrNone :: "queryfn \<Rightarrow> qdesc \<Rightarrow> jsval promise completion \<times> event list" where
  "obj_manyOrNone qf query = qf query (Some (Mask ({result_many} \<union> {result_none})))"

definition obj_any :: "queryfn \<Rightarrow> qdesc \<Rightarrow> jsval promise completion \<times> event list" where
  "obj_any qf query = qf query (Some (Mask result_any))"

definition obj_result ::
  "npm \<Rightarrow> queryfn \<Rightarrow> qdesc \<Rightarrow> jsval \<Rightarrow> jsval \<Rightarrow> jsval promise completion \<times> event list" where
  "obj_result m qf query f thisArg =
     (let v = qf query (Some ResultQuery) in singleValue m v f thisArg)"

definition obj_stream :: "queryfn \<Rightarrow> qdesc \<Rightarrow> jsval promise completion \<times> event list" where
  "obj_stream qf qs = qf qs (Some StreamQuery)"

definition obj_func ::
  "queryfn \<Rightarrow> jsval \<Rightarrow> mask option \<Rightarrow> jsval promise completion \<times> event list" where
  "obj_func qf funcName qrm = qf (FuncName funcName) qrm"

definition obj_proc ::
  "npm \<Rightarrow> queryfn \<Rightarrow> jsval \<Rightarrow> jsval \<Rightarrow> jsval \<Rightarrow> jsval promise completion \<times> event list" where
  "obj_proc m qf procName f thisArg =
     (let v = obj_func qf procName (Some (Mask ({result_one} \<union> {result_none})))
      in singleValue m v f thisArg)"

text \<open>
  Modelled from the spec: \<^verbatim>\<open>map\<close> and \<^verbatim>\<open>forEach\<close> of module \<^verbatim>\<open>./array\<close> apply the
  function once per row, in index order; the first throw ends the loop.
\<close>

fun arr_map :: "(jsval \<Rightarrow> jsval completion) \<Rightarrow> jsval list \<Rightarrow> jsval list completion" where
  "arr_map g [] = Returns []"
| "arr_map g (x # xs) =
     (case g x of
        Throws e \<Rightarrow> Throws e
      | Returns y \<Rightarrow>
          (case arr_map g xs of Throws e \<Rightarrow> Throws e | Returns ys \<Rightarrow> Returns (y # ys)))"

fun rows_of :: "jsval \<Rightarrow> jsval list" where
  "rows_of (JArr rows) = rows"
| "rows_of v = []"

definition obj_map ::
  "npm \<Rightarrow> queryfn \<Rightarrow> qdesc \<Rightarrow> jsval \<Rightarrow> jsval \<Rightarrow> jsval promise completion \<times> event list" where
  "obj_map m qf query f thisArg =
     chain (obj_any qf query) (\<lambda>data.
       case arr_map (invoke m f thisArg) (rows_of data) of
         Throws e \<Rightarrow> Rejected e
       | Returns ys \<Rightarrow> Resolved (JArr ys))"

definition obj_each ::
  "npm \<Rightarrow> queryfn \<Rightarrow> qdesc \<Rightarrow> jsval \<Rightarrow> jsval \<Rightarrow> jsval promise completion \<times> event list" where
  "obj_each m qf query f thisArg =
     chain (obj_any qf query) (\<lambda>data.
       case arr_map (invoke m f thisArg) (rows_of data) of
         Throws e \<Rightarrow> Rejected e
       | Returns ys \<Rightarrow> Resolved data)"

text \<open>The query-shaped operations of a protocol object, with their arguments.\<close>

datatype operation =
    OpQuery qdesc "mask option"
  | OpNone qdesc
  | OpOne qdesc jsval jsval
  | OpMany qdesc
  | OpOneOrNone qdesc jsval jsval
  | OpManyOrNone qdesc
  | OpAny qdesc
  | OpResult qdesc jsval jsval
  | OpStream qdesc
  | OpFunc jsval "mask option"
  | OpProc jsval jsval jsval
  | OpMap qdesc jsval jsval
  | OpEach qdesc jsval jsval

fun perform :: "npm \<Rightarrow> queryfn \<Rightarrow> operation \<Rightarrow> jsval promise completion \<times> event list" where
  "perform m qf (OpQuery query qrm) = qf query qrm"
| "perform m qf (OpNone query) = obj_none qf query"
| "perform m qf (OpOne query f thisArg) = obj_one m qf query f thisArg"
| "perform m qf (OpMany query) = obj_many qf query"
| "perform m qf (OpOneOrNone query f thisArg) = obj_oneOrNone m qf query f thisArg"
| "perform m qf (OpManyOrNone query) = obj_manyOrNone qf query"
| "perform m qf (OpAny query) = obj_any qf query"
| "perform m qf (OpResult query f thisArg) = obj_result m qf query f thisArg"
| "perform m qf (OpStream qs) = obj_stream qf qs"
| "perform m qf (OpFunc funcName qrm) = obj_func qf funcName qrm"
| "perform m qf (OpProc procName f thisArg) = obj_proc m qf procName f thisArg"
| "perform m qf (OpMap query f thisArg) = obj_map m qf query f thisArg"
| "perform m qf (OpEach query f thisArg) = obj_each m qf query f thisArg"

section \<open>Protocol extender\<close>

text \<open>
  A protocol object: its own properties, each with its value and whether it is
  writable, and whether properties can still be added. A value is one of the
  operations that \<^verbatim>\<open>extend\<close> attaches, known by its name, or any other value.
\<close>

datatype pval = Builtin string | Given jsval

record pobj =
  props :: "string \<rightharpoonup> pval \<times> bool"
  extensible :: bool

text \<open>
  The assignment \<^verbatim>\<open>o[n] = v\<close>: it changes a writable property, adds a property to
  an extensible object, and is refused otherwise (\<open>None\<close>).
\<close>

definition put :: "pobj \<Rightarrow> string \<Rightarrow> pval \<Rightarrow> pobj option" where
  "put ob n v =
     (case props ob n of
        Some (old, w) \<Rightarrow> if w then Some (ob\<lparr>props := (props ob)(n \<mapsto> (v, True))\<rparr>) else None
      | None \<Rightarrow> if extensible ob then Some (ob\<lparr>props := (props ob)(n \<mapsto> (v, True))\<rparr>) else None)"

text \<open>
  The operations in the order in which \<^verbatim>\<open>extend\<close> assigns them. The file is in
  strict mode: an assignment that is refused throws.
\<close>

definition builtins :: "string list" where
  "builtins = [''none'', ''one'', ''many'', ''oneOrNone'', ''manyOrNone'', ''any'', ''result'',
     ''stream'', ''func'', ''proc'', ''map'', ''each'', ''task'', ''tx'']"

fun attach :: "string list \<Rightarrow> pobj \<Rightarrow> error + pobj" where
  "attach [] ob = Inr ob"
| "attach (n # ns) ob =
     (case put ob n (Builtin n) of
        None \<Rightarrow> Inl (TypeError (''Cannot assign to read only property '' @ n))
      | Some ob' \<Rightarrow> attach ns ob')"

text \<open>
  Modelled from the spec: \<^verbatim>\<open>lock(obj, freeze, options)\<close> of module \<^verbatim>\<open>./utils\<close>.
  With \<^verbatim>\<open>freeze\<close> the object is locked permanently: no property can be added or
  overwritten. Without it the properties that the object has are made read-only, as
  the comment at the call says (\<^verbatim>\<open>lock all default properties to read-only, to
  prevent override by the client\<close>); the object still takes the custom operations
  that the extension hook is there to add (\<^verbatim>\<open>extend the protocol\<close>). The spec gives
  the options no part in locking.
\<close>

definition readonly :: "pobj \<Rightarrow> pobj" where
  "readonly ob = ob\<lparr>props := (\<lambda>n. case props ob n of None \<Rightarrow> None | Some (v, w) \<Rightarrow> Some (v, False))\<rparr>"

definition lock :: "pobj \<Rightarrow> bool \<Rightarrow> options \<Rightarrow> pobj" where
  "lock ob freeze opts = (if freeze then (readonly ob)\<lparr>extensible := False\<rparr> else readonly ob)"

text \<open>
  Modelled from the spec: \<^verbatim>\<open>$npm.events.extend(options, obj, dc)\<close> of module
  \<^verbatim>\<open>./events\<close> invokes the extension hook on the object. The hook is a parameter:
  given the object and the database-context tag, the assignments it makes, in order.
  An assignment that is refused leaves the object as it is.
\<close>

fun assignments :: "(string \<times> pval) list \<Rightarrow> pobj \<Rightarrow> pobj" where
  "assignments [] ob = ob"
| "assignments ((n, v) # ws) ob =
     assignments ws (case put ob n v of Some ob' \<Rightarrow> ob' | None \<Rightarrow> ob)"

datatype step = Locked bool | Extended

text \<open>
  \<^verbatim>\<open>extend(ctx, obj)\<close>: attach the operations, lock the properties, invoke the hook,
  freeze. The result is the object and the calls made after the operations were
  attached, in order.
\<close>

definition extend ::
  "(pobj \<Rightarrow> jsval \<Rightarrow> (string \<times> pval) list) \<Rightarrow> cnContext \<Rightarrow> pobj \<Rightarrow> error + pobj \<times> step list" where
  "extend hook ctx obj =
     (case attach builtins obj of
        Inl e \<Rightarrow> Inl e
      | Inr o1 \<Rightarrow>
          (let o2 = lock o1 False (options ctx);
               o3 = assignments (hook o2 (dc ctx)) o2;
               o4 = lock o3 True (options ctx)
           in Inr (o4, [Locked False, Extended, Locked True])))"

text \<open>
  \<^verbatim>\<open>Database.connect(options)\<close>: a context of its own, the object \<^verbatim>\<open>self\<close> with
  \<^verbatim>\<open>query\<close> and \<^verbatim>\<open>done\<close>, a connection from the pool or a direct one, and in the
  handler the binding, \<^verbatim>\<open>self.client\<close> and the extension of \<^verbatim>\<open>self\<close>. The future
  resolves with \<^verbatim>\<open>self\<close>; the context that \<^verbatim>\<open>self\<close> closes over is part of the
  result.
\<close>

definition Database_connect ::
  "npm \<Rightarrow> (pobj \<Rightarrow> jsval \<Rightarrow> (string \<times> pval) list) \<Rightarrow> jsval \<Rightarrow> jsval \<Rightarrow> options \<Rightarrow> bool
     \<Rightarrow> pobj promise \<times> cnContext \<times> event list" where
  "Database_connect m hook c d opts is_direct =
     (let ctx = createContext c d opts;
          self = \<lparr>props = [''query'' \<mapsto> (Builtin ''query'', True),
                           ''done'' \<mapsto> (Builtin ''done'', True)],
                  extensible = True\<rparr>;
          method = (if is_direct then ''direct'' else ''pool'');
          q0 = ((if is_direct then direct m ctx else pool m ctx), (ctx, [Acquire method]))
      in then_p q0 (\<lambda>dbc (x, evs).
           (let x' = connect x dbc;
                self' = self\<lparr>props := (props self)(''client'' \<mapsto> (Given (JObj (client dbc)), True))\<rparr>
            in case extend hook x' self' of
                 Inl e \<Rightarrow> (Rejected e, (x', evs))
               | Inr (ob, steps) \<Rightarrow> (Resolved ob, (x', evs)))))"

section \<open>Duplicate-registration guard\<close>

text \<open>
  \<^verbatim>\<open>checkForDuplicates(cn, config)\<close> on the registry \<^verbatim>\<open>dbObjects\<close>, the set of its
  keys. \<^verbatim>\<open>JSON.stringify\<close> is the parameter \<open>stringify\<close>. The result is the registry
  after the call and the warnings written to the console.
\<close>

definition checkForDuplicates ::
  "(jsval \<Rightarrow> string) \<Rightarrow> string set \<Rightarrow> jsval \<Rightarrow> options \<Rightarrow> string set \<times> string list" where
  "checkForDuplicates stringify dbObjects c opts =
     (let cnKey = stringify c
      in if cnKey \<in> dbObjects then
           (if \<not> noWarnings opts then
              (dbObjects, [''WARNING: Creating a duplicate database object for the same connection.''])
            else (dbObjects, []))
         else (insert cnKey dbObjects, []))"

section \<open>Example inputs\<close>

text \<open>
  A pool that hands out client 7, a task engine that sends one statement and settles
  as \<open>r\<close>, a database that answers every statement with \<open>rows\<close>, and callbacks
  that return their argument.
\<close>

definition demo_conn :: dbconn where
  "demo_conn = \<lparr>client = 7, isFresh = True\<rparr>"

definition demo_npm :: "jsval promise completion \<Rightarrow> jsval list \<Rightarrow> npm" where
  "demo_npm r rows =
     \<lparr>pool = (\<lambda>x. Resolved demo_conn),
      direct = (\<lambda>x. Resolved demo_conn),
      exec = (\<lambda>x t b. ([Query (JStr ''select 1'')], r)),
      driver = (\<lambda>k q. Inr rows),
      raw = (\<lambda>k q. Resolved (JObj 1)),
      streaming = (\<lambda>k q. Resolved (JObj 2)),
      call = (\<lambda>f t x. Returns x)\<rparr>"

definition demo_ctx :: cnContext where
  "demo_ctx = createContext (JStr ''postgres://localhost/db'') JUndefined \<lparr>noWarnings = False\<rparr>"

definition demo_cb :: jsval where
  "demo_cb = JFunc JUndefined ''run'' 1"

section \<open>Auxiliary facts\<close>

lemma taskEnter_db: "db (fst (taskEnter ctx obj this p1 p2 isTX)) = db ctx"
  by (simp add: taskEnter_def clone_def Let_def)

lemma taskEnter_txLevel:
  "txLevel (fst (taskEnter ctx obj this p1 p2 isTX)) =
     (if isTX then Some (nextLevel (txLevel ctx)) else txLevel ctx)"
  by (simp add: taskEnter_def clone_def Let_def)

lemma taskEnter_cb:
  "cb (fst (taskEnter ctx obj this p1 p2 isTX)) = (if p2 \<noteq> JUndefined then p2 else p1)"
  by (simp add: taskEnter_def clone_def Let_def)

lemma taskProcessor_no_callback:
  assumes "taskEnter ctx obj this p1 p2 isTX = (taskCtx, tag)"
    and "\<not> is_function (cb taskCtx)"
  shows "taskProcessor m ctx obj this p1 p2 isTX =
     (Returns (Rejected (TypeError (''Callback function is required for the '' @
        (if isTX then ''transaction.'' else ''task.'')))), taskCtx, [])"
  unfolding taskProcessor_def using assms by simp

lemma taskProcessor_reuse:
  assumes "taskEnter ctx obj this p1 p2 isTX = (taskCtx, tag)"
    and "is_function (cb taskCtx)"
    and "db taskCtx = Some d"
    and "exec m taskCtx
           \<lparr>tsk_tag = resolveTag tag (cb taskCtx), tsk_isTX = isTX,
            tsk_isFresh = Some (isFresh d)\<rparr> isTX = (stmts, r)"
  shows "taskProcessor m ctx obj this p1 p2 isTX =
     (r, taskCtx, map (Execute (client d)) stmts)"
  unfolding taskProcessor_def using assms by simp

lemma taskProcessor_pool_fails:
  assumes "taskEnter ctx obj this p1 p2 isTX = (taskCtx, tag)"
    and "is_function (cb taskCtx)"
    and "db taskCtx = None"
    and "pool m taskCtx = Rejected e"
  shows "taskProcessor m ctx obj this p1 p2 isTX =
     (Returns (Rejected e), taskCtx, [Acquire ''pool''])"
  unfolding taskProcessor_def using assms
  by (simp add: then_p_def catch_p_def disconnect_def)

lemma taskProcessor_acquired:
  assumes "taskEnter ctx obj this p1 p2 isTX = (taskCtx, tag)"
    and "is_function (cb taskCtx)"
    and "db taskCtx = None"
    and "pool m taskCtx = Resolved d"
    and "exec m (connect taskCtx d)
           \<lparr>tsk_tag = resolveTag tag (cb taskCtx), tsk_isTX = isTX,
            tsk_isFresh = Some (isFresh d)\<rparr> isTX = (stmts, r)"
  shows "taskProcessor m ctx obj this p1 p2 isTX =
     (Returns (settle r), taskCtx\<lparr>db := None\<rparr>,
      Acquire ''pool'' # map (Execute (client d)) stmts @ [Release (client d)])"
  unfolding taskProcessor_def using assms
  by (cases "settle r") (simp_all add: then_p_def catch_p_def connect_def disconnect_def)

lemma taskProcessor_txLevel:
  "txLevel (fst (snd (taskProcessor m ctx obj this p1 p2 isTX))) =
     txLevel (fst (taskEnter ctx obj this p1 p2 isTX))"
proof -
  obtain taskCtx tag where te: "taskEnter ctx obj this p1 p2 isTX = (taskCtx, tag)"
    by (cases "taskEnter ctx obj this p1 p2 isTX")
  show ?thesis
  proof (cases "is_function (cb taskCtx)")
    case False
    with te show ?thesis by (simp add: taskProcessor_no_callback)
  next
    case fn: True
    show ?thesis
    proof (cases "db taskCtx")
      case (Some d)
      obtain stmts r where "exec m taskCtx
           \<lparr>tsk_tag = resolveTag tag (cb taskCtx), tsk_isTX = isTX,
            tsk_isFresh = Some (isFresh d)\<rparr> isTX = (stmts, r)"
        by (cases "exec m taskCtx
           \<lparr>tsk_tag = resolveTag tag (cb taskCtx), tsk_isTX = isTX,
            tsk_isFresh = Some (isFresh d)\<rparr> isTX")
      with te fn Some show ?thesis by (simp add: taskProcessor_reuse)
    next
      case None
      show ?thesis
      proof (cases "pool m taskCtx")
        case (Rejected e)
        with te fn None show ?thesis by (simp add: taskProcessor_pool_fails)
      next
        case (Resolved d)
        obtain stmts r where "exec m (connect taskCtx d)
           \<lparr>tsk_tag = resolveTag tag (cb taskCtx), tsk_isTX = isTX,
            tsk_isFresh = Some (isFresh d)\<rparr> isTX = (stmts, r)"
          by (cases "exec m (connect taskCtx d)
           \<lparr>tsk_tag = resolveTag tag (cb taskCtx), tsk_isTX = isTX,
            tsk_isFresh = Some (isFresh d)\<rparr> isTX")
        with te fn None Resolved show ?thesis by (simp add: taskProcessor_acquired)
      qed
    qed
  qed
qed

section \<open>Transaction nesting level\<close>

text \<open>
  Claim C2. A transaction sets the nesting level of its cloned context on entry: to 0
  when the inherited level is absent or negative, and to the inherited level plus 1
  when that level is an integer that is at least 0. The level is the same when the call
  has returned.
\<close>

theorem tx_level_on_entry:
  "(txLevel ctx = None \<longrightarrow>
      txLevel (fst (taskEnter ctx obj this p1 p2 True)) = Some 0
      \<and> txLevel (fst (snd (obj_tx m ctx obj this p1 p2))) = Some 0)
   \<and> (\<forall>l. txLevel ctx = Some l \<and> l < 0 \<longrightarrow>
      txLevel (fst (taskEnter ctx obj this p1 p2 True)) = Some 0
      \<and> txLevel (fst (snd (obj_tx m ctx obj this p1 p2))) = Some 0)
   \<and> (\<forall>l. txLevel ctx = Some l \<and> 0 \<le> l \<longrightarrow>
      txLevel (fst (taskEnter ctx obj this p1 p2 True)) = Some (l + 1)
      \<and> txLevel (fst (snd (obj_tx m ctx obj this p1 p2))) = Some (l + 1))"
  by (simp add: obj_tx_def taskProcessor_txLevel taskEnter_txLevel nextLevel_def)

theorem tx_level_on_entry_witness:
  "txLevel (fst (snd (obj_tx (demo_npm (Returns (Resolved JNull)) []) demo_ctx (JObj 0) (JObj 0)
      demo_cb JUndefined))) = Some 0
   \<and> txLevel (fst (snd (obj_tx (demo_npm (Returns (Resolved JNull)) [])
      (demo_ctx\<lparr>db := Some demo_conn, txLevel := Some (- 1)\<rparr>) (JObj 0) (JObj 0)
      demo_cb JUndefined))) = Some 0
   \<and> txLevel (fst (snd (obj_tx (demo_npm (Returns (Resolved JNull)) [])
      (demo_ctx\<lparr>db := Some demo_conn, txLevel := Some 2\<rparr>) (JObj 0) (JObj 0)
      demo_cb JUndefined))) = Some 3"
  using tx_level_on_entry [of demo_ctx "JObj 0" "JObj 0" demo_cb JUndefined
      "demo_npm (Returns (Resolved JNull)) []"]
    tx_level_on_entry [of "demo_ctx\<lparr>db := Some demo_conn, txLevel := Some (- 1)\<rparr>"
      "JObj 0" "JObj 0" demo_cb JUndefined "demo_npm (Returns (Resolved JNull)) []"]
    tx_level_on_entry [of "demo_ctx\<lparr>db := Some demo_conn, txLevel := Some 2\<rparr>"
      "JObj 0" "JObj 0" demo_cb JUndefined "demo_npm (Returns (Resolved JNull)) []"]
  by (simp add: demo_ctx_def createContext_def)

text \<open>
  Claim C10. A plain task leaves the nesting level of its cloned context as inherited
  from the parent context; whenever \<^verbatim>\<open>taskProcessor\<close> leaves a level that differs
  from the inherited one, the invocation is a transaction.
\<close>

theorem task_keeps_level:
  "txLevel (fst (snd (obj_task m ctx obj this p1 p2))) = txLevel ctx
   \<and> (txLevel (fst (snd (taskProcessor m ctx obj this p1 p2 isTX))) \<noteq> txLevel ctx \<longrightarrow> isTX)"
  by (simp add: obj_task_def taskProcessor_txLevel taskEnter_txLevel)

theorem task_keeps_level_witness:
  "txLevel (fst (snd (obj_task (demo_npm (Returns (Resolved JNull)) [])
      (demo_ctx\<lparr>db := Some demo_conn, txLevel := Some 2\<rparr>) (JObj 0) (JObj 0)
      demo_cb JUndefined))) = Some 2
   \<and> txLevel (fst (snd (taskProcessor (demo_npm (Returns (Resolved JNull)) [])
      (demo_ctx\<lparr>db := Some demo_conn, txLevel := Some 2\<rparr>) (JObj 0) (JObj 0)
      demo_cb JUndefined True))) \<noteq> Some 2"
  using task_keeps_level [of "demo_npm (Returns (Resolved JNull)) []"
      "demo_ctx\<lparr>db := Some demo_conn, txLevel := Some 2\<rparr>" "JObj 0" "JObj 0" demo_cb JUndefined True]
  by (simp add: taskProcessor_txLevel taskEnter_txLevel nextLevel_def)

section \<open>Connection lifetime of a task or transaction\<close>

text \<open>
  Claim C4. When the resolved callback argument of a task or transaction (the second
  argument if one is given, else the first) is not a function, the returned future is
  rejected at once with a type error, and nothing is done to any connection: no
  request to the connection module, no statement, no release, and the connection
  binding is the inherited one.
\<close>

theorem no_callback_rejects:
  assumes "\<not> is_function (if p2 \<noteq> JUndefined then p2 else p1)"
  shows "fst (taskProcessor m ctx obj this p1 p2 isTX) =
       Returns (Rejected (TypeError (''Callback function is required for the '' @
          (if isTX then ''transaction.'' else ''task.''))))
     \<and> snd (snd (taskProcessor m ctx obj this p1 p2 isTX)) = []
     \<and> db (fst (snd (taskProcessor m ctx obj this p1 p2 isTX))) = db ctx"
proof -
  obtain taskCtx tag where te: "taskEnter ctx obj this p1 p2 isTX = (taskCtx, tag)"
    by (cases "taskEnter ctx obj this p1 p2 isTX")
  from te have "cb taskCtx = (if p2 \<noteq> JUndefined then p2 else p1)"
    using taskEnter_cb [of ctx obj this p1 p2 isTX] by simp
  with assms have nf: "\<not> is_function (cb taskCtx)" by simp
  from te have "db taskCtx = db ctx"
    using taskEnter_db [of ctx obj this p1 p2 isTX] by simp
  with taskProcessor_no_callback [OF te nf] show ?thesis by simp
qed

theorem no_callback_rejects_witness:
  "taskProcessor (demo_npm (Returns (Resolved JNull)) []) demo_ctx (JObj 0) (JObj 0)
      (JStr ''my-tag'') (JNum 5) True =
     (Returns (Rejected (TypeError ''Callback function is required for the transaction.'')),
      fst (snd (taskProcessor (demo_npm (Returns (Resolved JNull)) []) demo_ctx (JObj 0) (JObj 0)
        (JStr ''my-tag'') (JNum 5) True)), [])"
  using no_callback_rejects [of "JNum 5" "JStr ''my-tag''" "demo_npm (Returns (Resolved JNull)) []"
      demo_ctx "JObj 0" "JObj 0" True]
  by (simp add: prod_eq_iff)

text \<open>
  Claim C5. When the calling context already holds a bound connection, a task or
  transaction reuses it: everything the invocation does to its collaborators is a
  statement on that connection, so there is no acquisition and no release, and the
  connection is still bound when the invocation is over.
\<close>

theorem bound_connection_reused:
  assumes "db ctx = Some d"
  shows "(\<forall>e \<in> set (snd (snd (taskProcessor m ctx obj this p1 p2 isTX))).
            \<exists>q. e = Execute (client d) q)
     \<and> (\<forall>meth. Acquire meth \<notin> set (snd (snd (taskProcessor m ctx obj this p1 p2 isTX))))
     \<and> (\<forall>k. Release k \<notin> set (snd (snd (taskProcessor m ctx obj this p1 p2 isTX))))
     \<and> db (fst (snd (taskProcessor m ctx obj this p1 p2 isTX))) = Some d"
proof -
  obtain taskCtx tag where te: "taskEnter ctx obj this p1 p2 isTX = (taskCtx, tag)"
    by (cases "taskEnter ctx obj this p1 p2 isTX")
  from te assms have bound: "db taskCtx = Some d"
    using taskEnter_db [of ctx obj this p1 p2 isTX] by simp
  show ?thesis
  proof (cases "is_function (cb taskCtx)")
    case False
    from taskProcessor_no_callback [OF te False] bound show ?thesis by simp
  next
    case True
    obtain stmts r where ex: "exec m taskCtx
           \<lparr>tsk_tag = resolveTag tag (cb taskCtx), tsk_isTX = isTX,
            tsk_isFresh = Some (isFresh d)\<rparr> isTX = (stmts, r)"
      by (cases "exec m taskCtx
           \<lparr>tsk_tag = resolveTag tag (cb taskCtx), tsk_isTX = isTX,
            tsk_isFresh = Some (isFresh d)\<rparr> isTX")
    from taskProcessor_reuse [OF te True bound ex] bound show ?thesis by auto
  qed
qed

theorem bound_connection_reused_witness:
  "snd (snd (taskProcessor (demo_npm (Returns (Rejected (External ''boom''))) [])
      (demo_ctx\<lparr>db := Some demo_conn\<rparr>) (JObj 0) (JObj 0) demo_cb JUndefined True)) =
     [Execute 7 (Query (JStr ''select 1''))]
   \<and> db (fst (snd (taskProcessor (demo_npm (Returns (Rejected (External ''boom''))) [])
      (demo_ctx\<lparr>db := Some demo_conn\<rparr>) (JObj 0) (JObj 0) demo_cb JUndefined True))) =
     Some demo_conn"
proof -
  have "db (demo_ctx\<lparr>db := Some demo_conn\<rparr>) = Some demo_conn" by simp
  from bound_connection_reused [OF this] show ?thesis
    by (simp add: taskProcessor_def taskEnter_def clone_def demo_ctx_def createContext_def
        demo_cb_def demo_npm_def demo_conn_def resolveTag_def)
qed

text \<open>
  Claim C1. When the calling context holds no connection and the engine acquires one,
  the connection is released exactly once, after the statements of the callback, on
  the success path and on the failure path alike; when the callback fails (its future
  rejects, or it throws), the returned future rejects with that same error, and when
  it resolves, the returned future resolves with the same value.
\<close>

theorem task_releases_once:
  assumes "db ctx = None"
    and "taskEnter ctx obj this p1 p2 isTX = (taskCtx, tag)"
    and "is_function (cb taskCtx)"
    and "pool m taskCtx = Resolved d"
    and "exec m (connect taskCtx d)
           \<lparr>tsk_tag = resolveTag tag (cb taskCtx), tsk_isTX = isTX,
            tsk_isFresh = Some (isFresh d)\<rparr> isTX = (stmts, r)"
  shows "taskProcessor m ctx obj this p1 p2 isTX =
       (Returns (settle r), taskCtx,
        Acquire ''pool'' # map (Execute (client d)) stmts @ [Release (client d)])
     \<and> (\<forall>e. r = Returns (Rejected e) \<or> r = Throws e \<longrightarrow>
          fst (taskProcessor m ctx obj this p1 p2 isTX) = Returns (Rejected e))
     \<and> (\<forall>v. r = Returns (Resolved v) \<longrightarrow>
          fst (taskProcessor m ctx obj this p1 p2 isTX) = Returns (Resolved v))
     \<and> count_list (snd (snd (taskProcessor m ctx obj this p1 p2 isTX))) (Release (client d)) = 1
     \<and> db taskCtx = None"
proof -
  from assms(1,2) have unbound: "db taskCtx = None"
    using taskEnter_db [of ctx obj this p1 p2 isTX] by simp
  then have same: "taskCtx\<lparr>db := None\<rparr> = taskCtx" by simp
  have cnt: "count_list (map (Execute (client d)) stmts) (Release (client d)) = 0"
    by (induction stmts) simp_all
  from taskProcessor_acquired [OF assms(2,3) unbound assms(4,5)] same unbound cnt
  show ?thesis by auto
qed

theorem task_releases_once_witness:
  "taskProcessor (demo_npm (Returns (Rejected (External ''boom''))) []) demo_ctx (JObj 0) (JObj 0)
      demo_cb JUndefined True =
     (Returns (Rejected (External ''boom'')),
      fst (taskEnter demo_ctx (JObj 0) (JObj 0) demo_cb JUndefined True),
      [Acquire ''pool'', Execute 7 (Query (JStr ''select 1'')), Release 7])"
proof -
  have a: "db demo_ctx = None" by (simp add: demo_ctx_def createContext_def)
  have b: "taskEnter demo_ctx (JObj 0) (JObj 0) demo_cb JUndefined True =
      (fst (taskEnter demo_ctx (JObj 0) (JObj 0) demo_cb JUndefined True), JUndefined)"
    by (simp add: taskEnter_def Let_def)
  have c: "is_function (cb (fst (taskEnter demo_ctx (JObj 0) (JObj 0) demo_cb JUndefined True)))"
    by (simp add: taskEnter_cb demo_cb_def)
  have d: "pool (demo_npm (Returns (Rejected (External ''boom''))) [])
      (fst (taskEnter demo_ctx (JObj 0) (JObj 0) demo_cb JUndefined True)) = Resolved demo_conn"
    by (simp add: demo_npm_def)
  have e: "exec (demo_npm (Returns (Rejected (External ''boom''))) [])
      (connect (fst (taskEnter demo_ctx (JObj 0) (JObj 0) demo_cb JUndefined True)) demo_conn)
      \<lparr>tsk_tag = resolveTag JUndefined
          (cb (fst (taskEnter demo_ctx (JObj 0) (JObj 0) demo_cb JUndefined True))),
       tsk_isTX = True, tsk_isFresh = Some (isFresh demo_conn)\<rparr> True =
      ([Query (JStr ''select 1'')], Returns (Rejected (External ''boom'')))"
    by (simp add: demo_npm_def)
  from task_releases_once [OF a b c d e] show ?thesis
    by (simp add: demo_conn_def)
qed

text \<open>
  \<^verbatim>\<open>Database.query\<close> follows the same discipline: one acquisition, the query, one
  release, whether the query resolves or rejects.
\<close>

lemma Database_query_acquired:
  assumes "pool m (createContext c dcx opts) = Resolved d"
    and "npm_query m (connect (createContext c dcx opts) d) query qrm = (r, ev)"
  shows "Database_query m c dcx opts query qrm =
     (r, createContext c dcx opts, Acquire ''pool'' # ev @ [Release (client d)])"
proof -
  have "(createContext c dcx opts)\<lparr>db := None\<rparr> = createContext c dcx opts"
    by (simp add: createContext_def)
  with assms show ?thesis
    unfolding Database_query_def
    by (cases r) (simp_all add: then_p_def catch_p_def connect_def disconnect_def)
qed

section \<open>Connection handle\<close>

text \<open>
  A handle obtained from \<^verbatim>\<open>Database.connect\<close> closes over a context that holds the
  connection acquired; when the acquisition fails there is no handle.
\<close>

lemma Database_connect_bound:
  assumes "(if is_direct then direct m (createContext c dcx opts)
            else pool m (createContext c dcx opts)) = Resolved d"
  shows "db (fst (snd (Database_connect m hook c dcx opts is_direct))) = Some d
     \<and> snd (snd (Database_connect m hook c dcx opts is_direct)) =
         [Acquire (if is_direct then ''direct'' else ''pool'')]"
  using assms
  by (simp add: Database_connect_def then_p_def connect_def Let_def split: sum.splits prod.splits)

lemma Database_connect_fails:
  assumes "(if is_direct then direct m (createContext c dcx opts)
            else pool m (createContext c dcx opts)) = Rejected e"
  shows "fst (Database_connect m hook c dcx opts is_direct) = Rejected e
     \<and> db (fst (snd (Database_connect m hook c dcx opts is_direct))) = None"
proof -
  have "db (createContext c dcx opts) = None" by (simp add: createContext_def)
  with assms show ?thesis
    by (cases is_direct) (simp_all add: Database_connect_def then_p_def Let_def)
qed

text \<open>
  Claim C8. \<^verbatim>\<open>done()\<close> on a handle whose context holds no connection throws an
  error. So after a \<^verbatim>\<open>done()\<close> that released the connection, a second \<^verbatim>\<open>done()\<close>
  throws and releases nothing.
\<close>

theorem done_twice_fails:
  "(db ctx = None \<longrightarrow>
      self_done ctx = Throws (Error ''Cannot invoke done() on a disconnected client.''))
   \<and> (\<forall>d. db ctx = Some d \<longrightarrow>
      (\<exists>ctx'. self_done ctx = Returns (ctx', [Release (client d)])
         \<and> self_done ctx' = Throws (Error ''Cannot invoke done() on a disconnected client.'')))"
  by (simp add: self_done_def disconnect_def)

theorem done_twice_fails_witness:
  "self_done demo_ctx = Throws (Error ''Cannot invoke done() on a disconnected client.'')
   \<and> self_done (demo_ctx\<lparr>db := Some demo_conn\<rparr>) = Returns (demo_ctx, [Release 7])
   \<and> self_done demo_ctx = Throws (Error ''Cannot invoke done() on a disconnected client.'')"
  using done_twice_fails [of demo_ctx] done_twice_fails [of "demo_ctx\<lparr>db := Some demo_conn\<rparr>"]
  by (simp add: demo_ctx_def createContext_def demo_conn_def self_done_def disconnect_def)

text \<open>
  Claim C3, as stated, fails for \<^verbatim>\<open>task\<close> and \<^verbatim>\<open>tx\<close>: the guard is in
  \<^verbatim>\<open>self.query\<close> only. On a handle whose connection \<^verbatim>\<open>done()\<close> has released, a
  task finds no bound connection, asks the pool for a new one, runs, and resolves.
\<close>

theorem released_handle_task_counterexample:
  "self_done (demo_ctx\<lparr>db := Some demo_conn\<rparr>) = Returns (demo_ctx, [Release 7])
   \<and> obj_task (demo_npm (Returns (Resolved (JNum 1))) []) demo_ctx (JObj 0) (JObj 0)
        demo_cb JUndefined =
      (Returns (Resolved (JNum 1)),
       fst (taskEnter demo_ctx (JObj 0) (JObj 0) demo_cb JUndefined False),
       [Acquire ''pool'', Execute 7 (Query (JStr ''select 1'')), Release 7])"
  by (simp add: obj_task_def taskProcessor_def taskEnter_def clone_def demo_ctx_def
      createContext_def demo_cb_def demo_npm_def demo_conn_def resolveTag_def then_p_def
      catch_p_def connect_def disconnect_def self_done_def)

lemma perform_throws:
  assumes "\<And>query qrm. qf query qrm = (Throws e, [])"
  shows "perform m qf operation = (Throws e, [])"
  by (cases operation)
     (simp_all add: assms obj_none_def obj_one_def obj_many_def obj_oneOrNone_def
       obj_manyOrNone_def obj_any_def obj_result_def obj_stream_def obj_func_def obj_proc_def
       obj_map_def obj_each_def singleValue_def chain_def Let_def)

text \<open>
  Claim C3, amended. Every query-shaped operation of a connection handle (\<^verbatim>\<open>query\<close>,
  \<^verbatim>\<open>none\<close>, \<^verbatim>\<open>one\<close>, \<^verbatim>\<open>many\<close>, \<^verbatim>\<open>oneOrNone\<close>, \<^verbatim>\<open>manyOrNone\<close>, \<^verbatim>\<open>any\<close>,
  \<^verbatim>\<open>result\<close>, \<^verbatim>\<open>stream\<close>, \<^verbatim>\<open>func\<close>, \<^verbatim>\<open>proc\<close>, \<^verbatim>\<open>map\<close>, \<^verbatim>\<open>each\<close>), invoked when
  the context holds no connection, and so after \<^verbatim>\<open>done()\<close> has released it, fails at
  once with the usage error, thrown synchronously, and nothing is sent to the driver.
\<close>

theorem released_handle_throws:
  "(db ctx = None \<longrightarrow>
      perform m (self_query m ctx) operation =
        (Throws (Error ''Cannot execute a query on a disconnected client.''), []))
   \<and> (\<forall>ctx0 evs. self_done ctx0 = Returns (ctx, evs) \<longrightarrow>
      perform m (self_query m ctx) operation =
        (Throws (Error ''Cannot execute a query on a disconnected client.''), []))"
proof -
  have a: "perform m (self_query m ctx) operation =
        (Throws (Error ''Cannot execute a query on a disconnected client.''), [])"
    if "db ctx = None"
    using that by (intro perform_throws) (simp add: self_query_def)
  have b: "db ctx = None" if "self_done ctx0 = Returns (ctx, evs)" for ctx0 evs
    using that by (auto simp add: self_done_def disconnect_def split: if_splits option.splits)
  show ?thesis
  proof (intro conjI allI impI)
    assume "db ctx = None"
    then show "perform m (self_query m ctx) operation =
        (Throws (Error ''Cannot execute a query on a disconnected client.''), [])"
      by (rule a)
  next
    fix ctx0 evs
    assume "self_done ctx0 = Returns (ctx, evs)"
    then have "db ctx = None" by (rule b)
    then show "perform m (self_query m ctx) operation =
        (Throws (Error ''Cannot execute a query on a disconnected client.''), [])"
      by (rule a)
  qed
qed

theorem released_handle_throws_witness:
  "perform (demo_npm (Returns (Resolved JNull)) [JObj 1])
      (self_query (demo_npm (Returns (Resolved JNull)) [JObj 1]) demo_ctx)
      (OpOne (Query (JStr ''select 1'')) JUndefined JUndefined) =
     (Throws (Error ''Cannot execute a query on a disconnected client.''), [])
   \<and> self_done (demo_ctx\<lparr>db := Some demo_conn\<rparr>) = Returns (demo_ctx, [Release 7])"
proof -
  have d: "self_done (demo_ctx\<lparr>db := Some demo_conn\<rparr>) = Returns (demo_ctx, [Release 7])"
    by (simp add: self_done_def disconnect_def demo_ctx_def createContext_def demo_conn_def)
  have "\<forall>ctx0 evs. self_done ctx0 = Returns (demo_ctx, evs) \<longrightarrow>
      perform (demo_npm (Returns (Resolved JNull)) [JObj 1])
        (self_query (demo_npm (Returns (Resolved JNull)) [JObj 1]) demo_ctx)
        (OpOne (Query (JStr ''select 1'')) JUndefined JUndefined) =
      (Throws (Error ''Cannot execute a query on a disconnected client.''), [])"
    using released_handle_throws [of demo_ctx "demo_npm (Returns (Resolved JNull)) [JObj 1]"
      "OpOne (Query (JStr ''select 1'')) JUndefined JUndefined"]
    by (rule conjunct2)
  from this [rule_format, OF d] d show ?thesis by (rule conjI)
qed

section \<open>Exactly one row\<close>

lemma mask_rows_one:
  "mask_rows {result_one} rows =
     (if length rows = 1 then Resolved (hd rows)
      else if rows = [] then Rejected (QueryResultError ''No data returned from the query.'')
      else Rejected (QueryResultError ''Multiple rows were not expected.''))"
proof (cases rows)
  case Nil
  then show ?thesis by (simp add: mask_rows_def)
next
  case (Cons r rs)
  then show ?thesis by (cases rs) (simp_all add: mask_rows_def)
qed

lemma self_query_bound:
  assumes "db ctx = Some d" and "driver m (client d) query = Inr rows"
  shows "self_query m ctx query (Some (Mask q)) =
     (Returns (mask_rows q rows), [Execute (client d) query])"
  using assms by (simp add: self_query_def npm_query_def)

lemma root_query_acquired:
  assumes "pool m (createContext c dcx opts) = Resolved d"
    and "driver m (client d) query = Inr rows"
  shows "root_query m c dcx opts query (Some (Mask q)) =
     (Returns (mask_rows q rows),
      [Acquire ''pool'', Execute (client d) query, Release (client d)])"
proof -
  have "npm_query m (connect (createContext c dcx opts) d) query (Some (Mask q)) =
      (mask_rows q rows, [Execute (client d) query])"
    using assms(2) by (simp add: npm_query_def connect_def)
  from Database_query_acquired [OF assms(1) this] show ?thesis
    by (simp add: root_query_def)
qed

lemma obj_one_on_rows:
  assumes "qf query (Some (Mask {result_one})) = (Returns (mask_rows {result_one} rows), evs)"
  shows "fst (obj_one m qf query f thisArg) =
     Returns (if length rows = 1 then
                (if is_function f then handler (call m f thisArg (hd rows))
                 else Resolved (hd rows))
              else if rows = [] then Rejected (QueryResultError ''No data returned from the query.'')
              else Rejected (QueryResultError ''Multiple rows were not expected.''))"
  using assms by (simp add: obj_one_def singleValue_def chain_def mask_rows_one)

text \<open>
  Claim C6, as stated, fails when a transform function is passed: with one row
  returned and a transform that throws, \<^verbatim>\<open>one\<close> rejects, and not with a cardinality
  error.
\<close>

theorem one_transform_counterexample:
  "fst (obj_one ((demo_npm (Returns (Resolved JNull)) [JObj 1])
                   \<lparr>call := (\<lambda>f t x. Throws (External ''transform failed''))\<rparr>)
         (self_query ((demo_npm (Returns (Resolved JNull)) [JObj 1])
                   \<lparr>call := (\<lambda>f t x. Throws (External ''transform failed''))\<rparr>)
            (demo_ctx\<lparr>db := Some demo_conn\<rparr>))
         (Query (JStr ''select 1'')) demo_cb JUndefined) =
     Returns (Rejected (External ''transform failed''))
   \<and> length [JObj 1] = 1"
  by (simp add: obj_one_def singleValue_def chain_def self_query_def npm_query_def
      demo_npm_def demo_conn_def demo_cb_def mask_rows_def)

text \<open>
  Claim C6, amended. Let the query of \<^verbatim>\<open>one\<close> return \<open>n\<close> rows, on a connection
  handle that holds a connection or on the root handle when the pool gives one. When
  no transform function is passed, \<^verbatim>\<open>one\<close> resolves if and only if \<open>n = 1\<close>, and
  then with the single row. When a transform function is passed and \<open>n = 1\<close>, the
  future settles as the transform does on the single row: it resolves with the value
  returned, or rejects with what was thrown. In both cases \<^verbatim>\<open>one\<close> rejects with a
  cardinality error when \<open>n = 0\<close> or \<open>n > 1\<close>.
\<close>

theorem one_cardinality:
  assumes "driver m (client d) query = Inr rows"
    and "(qf = self_query m ctx \<and> db ctx = Some d)
       \<or> (qf = root_query m c dcx opts \<and> pool m (createContext c dcx opts) = Resolved d)"
  shows "(\<not> is_function f \<longrightarrow>
            ((\<exists>v. fst (obj_one m qf query f thisArg) = Returns (Resolved v)) \<longleftrightarrow> length rows = 1)
          \<and> (length rows = 1 \<longrightarrow>
               fst (obj_one m qf query f thisArg) = Returns (Resolved (hd rows))))
     \<and> (is_function f \<and> length rows = 1 \<longrightarrow>
            fst (obj_one m qf query f thisArg) = Returns (handler (call m f thisArg (hd rows))))
     \<and> (length rows = 0 \<or> length rows > 1 \<longrightarrow>
            (\<exists>msg. fst (obj_one m qf query f thisArg) = Returns (Rejected (QueryResultError msg))))"
proof -
  from assms obtain evs where q:
    "qf query (Some (Mask {result_one})) = (Returns (mask_rows {result_one} rows), evs)"
    using self_query_bound [of ctx d m query rows "{result_one}"]
      root_query_acquired [of m c dcx opts d query rows "{result_one}"]
    by auto
  from obj_one_on_rows [of qf query rows evs m f thisArg] q show ?thesis
    by (cases rows) auto
qed

theorem one_cardinality_witness:
  "fst (obj_one (demo_npm (Returns (Resolved JNull)) [JObj 1])
         (self_query (demo_npm (Returns (Resolved JNull)) [JObj 1]) (demo_ctx\<lparr>db := Some demo_conn\<rparr>))
         (Query (JStr ''select 1'')) JUndefined JUndefined) = Returns (Resolved (JObj 1))
   \<and> (\<exists>msg. fst (obj_one (demo_npm (Returns (Resolved JNull)) [JObj 1, JObj 2])
         (root_query (demo_npm (Returns (Resolved JNull)) [JObj 1, JObj 2])
            (JStr ''db'') JUndefined \<lparr>noWarnings = False\<rparr>)
         (Query (JStr ''select 1'')) JUndefined JUndefined) = Returns (Rejected (QueryResultError msg)))"
proof -
  have a: "driver (demo_npm (Returns (Resolved JNull)) [JObj 1]) (client demo_conn)
      (Query (JStr ''select 1'')) = Inr [JObj 1]"
    by (simp add: demo_npm_def)
  have b: "(self_query (demo_npm (Returns (Resolved JNull)) [JObj 1]) (demo_ctx\<lparr>db := Some demo_conn\<rparr>)
         = self_query (demo_npm (Returns (Resolved JNull)) [JObj 1]) (demo_ctx\<lparr>db := Some demo_conn\<rparr>)
       \<and> db (demo_ctx\<lparr>db := Some demo_conn\<rparr>) = Some demo_conn)
     \<or> (self_query (demo_npm (Returns (Resolved JNull)) [JObj 1]) (demo_ctx\<lparr>db := Some demo_conn\<rparr>)
         = root_query (demo_npm (Returns (Resolved JNull)) [JObj 1]) JNull JNull \<lparr>noWarnings = False\<rparr>
       \<and> pool (demo_npm (Returns (Resolved JNull)) [JObj 1])
            (createContext JNull JNull \<lparr>noWarnings = False\<rparr>) = Resolved demo_conn)"
    by simp
  have a2: "driver (demo_npm (Returns (Resolved JNull)) [JObj 1, JObj 2]) (client demo_conn)
      (Query (JStr ''select 1'')) = Inr [JObj 1, JObj 2]"
    by (simp add: demo_npm_def)
  have b2: "(root_query (demo_npm (Returns (Resolved JNull)) [JObj 1, JObj 2])
            (JStr ''db'') JUndefined \<lparr>noWarnings = False\<rparr>
         = self_query (demo_npm (Returns (Resolved JNull)) [JObj 1, JObj 2]) demo_ctx
       \<and> db demo_ctx = Some demo_conn)
     \<or> (root_query (demo_npm (Returns (Resolved JNull)) [JObj 1, JObj 2])
            (JStr ''db'') JUndefined \<lparr>noWarnings = False\<rparr>
         = root_query (demo_npm (Returns (Resolved JNull)) [JObj 1, JObj 2])
            (JStr ''db'') JUndefined \<lparr>noWarnings = False\<rparr>
       \<and> pool (demo_npm (Returns (Resolved JNull)) [JObj 1, JObj 2])
            (createContext (JStr ''db'') JUndefined \<lparr>noWarnings = False\<rparr>) = Resolved demo_conn)"
    by (simp add: demo_npm_def)
  from one_cardinality [OF a b, of JUndefined JUndefined]
    one_cardinality [OF a2 b2, of JUndefined JUndefined]
  show ?thesis by simp
qed

section \<open>Locking of the protocol object\<close>

lemma put_props_other:
  "put ob n v = Some ob' \<Longrightarrow> x \<noteq> n \<Longrightarrow> props ob' x = props ob x"
  by (auto simp add: put_def split: option.splits prod.splits if_splits)

lemma put_props_same:
  "put ob n v = Some ob' \<Longrightarrow> props ob' n = Some (v, True)"
  by (auto simp add: put_def split: option.splits prod.splits if_splits)

lemma put_readonly:
  "props ob n = Some (v, False) \<Longrightarrow> put ob n v' = None"
  by (simp add: put_def)

lemma attach_other:
  "attach ns ob = Inr o1 \<Longrightarrow> x \<notin> set ns \<Longrightarrow> props o1 x = props ob x"
proof (induction ns arbitrary: ob)
  case Nil
  then show ?case by simp
next
  case (Cons n ns)
  then obtain ob' where p: "put ob n (Builtin n) = Some ob'" and a: "attach ns ob' = Inr o1"
    by (auto split: option.splits)
  from Cons.IH [OF a] Cons.prems(2) have "props o1 x = props ob' x" by simp
  with put_props_other [OF p] Cons.prems(2) show ?case by simp
qed

lemma attach_builtin:
  "attach ns ob = Inr o1 \<Longrightarrow> x \<in> set ns \<Longrightarrow> props o1 x = Some (Builtin x, True)"
proof (induction ns arbitrary: ob)
  case Nil
  then show ?case by simp
next
  case (Cons n ns)
  then obtain ob' where p: "put ob n (Builtin n) = Some ob'" and a: "attach ns ob' = Inr o1"
    by (auto split: option.splits)
  show ?case
  proof (cases "x \<in> set ns")
    case True
    from Cons.IH [OF a True] show ?thesis .
  next
    case False
    with Cons.prems(2) have "x = n" by simp
    with attach_other [OF a False] put_props_same [OF p] show ?thesis by simp
  qed
qed

lemma assignments_readonly:
  "props ob n = Some (v, False) \<Longrightarrow> props (assignments ws ob) n = Some (v, False)"
proof (induction ws arbitrary: ob)
  case Nil
  then show ?case by simp
next
  case (Cons w ws)
  obtain k u where w: "w = (k, u)" by (cases w)
  show ?case
  proof (cases "put ob k u")
    case None
    with w Cons show ?thesis by simp
  next
    case (Some ob')
    have "k \<noteq> n" using Some put_readonly [OF Cons.prems, of u] by auto
    with put_props_other [OF Some, of n] Cons.prems have "props ob' n = Some (v, False)" by simp
    from Cons.IH [OF this] w Some show ?thesis by simp
  qed
qed

lemma lock_props:
  "props (lock ob freeze opts) n =
     (case props ob n of None \<Rightarrow> None | Some (v, w) \<Rightarrow> Some (v, False))"
  by (simp add: lock_def readonly_def)

lemma lock_False_put:
  "props (lock ob False opts) n \<noteq> None \<Longrightarrow> put (lock ob False opts) n v = None"
  by (auto simp add: put_def lock_props split: option.splits)

lemma lock_True_put: "put (lock ob True opts) n v = None"
  by (auto simp add: put_def lock_props split: option.splits) (simp add: lock_def)

lemma extend_Inr:
  assumes "extend hook ctx obj = Inr (ob, steps)"
  obtains o1 where "attach builtins obj = Inr o1"
    and "ob = lock (assignments (hook (lock o1 False (options ctx)) (dc ctx))
                 (lock o1 False (options ctx))) True (options ctx)"
    and "steps = [Locked False, Extended, Locked True]"
  using assms by (auto simp add: extend_def Let_def split: sum.splits)

lemma put_extensible: "put ob n v = Some ob' \<Longrightarrow> extensible ob' = extensible ob"
  by (auto simp add: put_def split: option.splits prod.splits if_splits)

lemma attach_extensible: "attach ns ob = Inr o1 \<Longrightarrow> extensible o1 = extensible ob"
proof (induction ns arbitrary: ob)
  case Nil
  then show ?case by simp
next
  case (Cons n ns)
  then obtain ob' where p: "put ob n (Builtin n) = Some ob'" and a: "attach ns ob' = Inr o1"
    by (auto split: option.splits)
  from Cons.IH [OF a] put_extensible [OF p] show ?case by simp
qed

lemma attach_fresh:
  assumes "extensible ob" and "\<forall>n v. props ob n \<noteq> Some (v, False)"
  shows "\<exists>o1. attach ns ob = Inr o1"
  using assms
proof (induction ns arbitrary: ob)
  case Nil
  then show ?case by simp
next
  case (Cons n ns)
  have "put ob n (Builtin n) \<noteq> None"
  proof (cases "props ob n")
    case None
    with Cons.prems(1) show ?thesis by (simp add: put_def)
  next
    case (Some a)
    obtain v w where "a = (v, w)" by (cases a)
    with Some Cons.prems(2) have "props ob n = Some (v, True)" by (cases w) auto
    then show ?thesis by (simp add: put_def)
  qed
  then obtain ob' where p: "put ob n (Builtin n) = Some ob'" by auto
  have "extensible ob'" using put_extensible [OF p] Cons.prems(1) by simp
  moreover have "\<forall>k v. props ob' k \<noteq> Some (v, False)"
  proof (intro allI)
    fix k v
    show "props ob' k \<noteq> Some (v, False)"
      using put_props_other [OF p, of k] put_props_same [OF p] Cons.prems(2)
      by (cases "k = n") auto
  qed
  ultimately obtain o1 where "attach ns ob' = Inr o1" using Cons.IH by blast
  with p show ?case by simp
qed

lemma lock_extensible: "extensible (lock ob freeze opts) = (extensible ob \<and> \<not> freeze)"
  by (simp add: lock_def readonly_def)

text \<open>
  Claim C7, as stated, fails in one point: the lock that precedes the extension hook
  makes the properties read-only and does not close the object, so a property can
  still be added, and the custom operation that a hook adds is in the finished
  object.
\<close>

theorem first_lock_allows_addition_counterexample:
  "(case attach builtins \<lparr>props = Map.empty, extensible = True\<rparr> of
      Inr o1 \<Rightarrow> put (lock o1 False \<lparr>noWarnings = False\<rparr>) ''custom'' (Given (JNum 1)) \<noteq> None
    | Inl e \<Rightarrow> False)
   \<and> (case extend (\<lambda>ob d. [(''custom'', Given (JNum 1))])
              (createContext JNull JNull \<lparr>noWarnings = False\<rparr>)
              \<lparr>props = Map.empty, extensible = True\<rparr> of
      Inr (ob, steps) \<Rightarrow> props ob ''custom'' = Some (Given (JNum 1), False)
    | Inl e \<Rightarrow> False)"
proof -
  let ?opts = "\<lparr>noWarnings = False\<rparr>"
  obtain o1 where att: "attach builtins \<lparr>props = Map.empty, extensible = True\<rparr> = Inr o1"
    using attach_fresh [of "\<lparr>props = Map.empty, extensible = True\<rparr>" builtins] by auto
  have "props o1 ''custom'' = None"
    using attach_other [OF att, of "''custom''"] by (simp add: builtins_def)
  then have none: "props (lock o1 False ?opts) ''custom'' = None"
    by (simp add: lock_props)
  have ext: "extensible (lock o1 False ?opts)"
    using attach_extensible [OF att] by (simp add: lock_extensible)
  from none ext obtain o3 where
    p: "put (lock o1 False ?opts) ''custom'' (Given (JNum 1)) = Some o3"
    by (simp add: put_def)
  from put_props_same [OF p] have "props (lock o3 True ?opts) ''custom'' = Some (Given (JNum 1), False)"
    by (simp add: lock_props)
  with att p show ?thesis
    by (simp add: extend_def createContext_def Let_def)
qed

text \<open>
  Claim C7, amended. When \<^verbatim>\<open>extend\<close> has built a protocol object: after the
  operations were attached, the calls are the lock of the properties, then the
  extension hook, once, then the permanent lock; the object that the hook receives has
  every property locked against overwriting; each operation that \<^verbatim>\<open>extend\<close>
  attached is still in the finished object, whatever the hook did; and no property of
  the finished object can be added or overwritten.
\<close>

theorem protocol_locked:
  assumes "extend hook ctx obj = Inr (ob, steps)"
  shows "steps = [Locked False, Extended, Locked True]
     \<and> (\<forall>n \<in> set builtins. props ob n = Some (Builtin n, False))
     \<and> (\<forall>n v. put ob n v = None)
     \<and> (\<exists>o1. attach builtins obj = Inr o1
           \<and> (\<forall>n v. props (lock o1 False (options ctx)) n \<noteq> None \<longrightarrow>
                 put (lock o1 False (options ctx)) n v = None)
           \<and> ob = lock (assignments (hook (lock o1 False (options ctx)) (dc ctx))
                     (lock o1 False (options ctx))) True (options ctx))"
proof -
  from assms obtain o1 where att: "attach builtins obj = Inr o1"
    and ob: "ob = lock (assignments (hook (lock o1 False (options ctx)) (dc ctx))
                 (lock o1 False (options ctx))) True (options ctx)"
    and st: "steps = [Locked False, Extended, Locked True]"
    by (rule extend_Inr)
  have b: "props ob n = Some (Builtin n, False)" if "n \<in> set builtins" for n
  proof -
    from attach_builtin [OF att that]
    have "props (lock o1 False (options ctx)) n = Some (Builtin n, False)"
      by (simp add: lock_props)
    from assignments_readonly [OF this] show ?thesis
      by (simp add: ob lock_props)
  qed
  have c: "put ob n v = None" for n v
    by (simp add: ob lock_True_put)
  have d: "put (lock o1 False (options ctx)) n v = None"
    if "props (lock o1 False (options ctx)) n \<noteq> None" for n v
    using that by (rule lock_False_put)
  from st b c d att ob show ?thesis by blast
qed

theorem protocol_locked_witness:
  "(case extend (\<lambda>ob d. [(''one'', Given JNull), (''custom'', Given (JNum 1))]) demo_ctx
          \<lparr>props = Map.empty, extensible = True\<rparr> of
      Inr (ob, steps) \<Rightarrow>
        steps = [Locked False, Extended, Locked True]
        \<and> props ob ''one'' = Some (Builtin ''one'', False)
        \<and> put ob ''one'' (Given JNull) = None
        \<and> put ob ''other'' (Given JNull) = None
    | Inl e \<Rightarrow> False)"
proof -
  obtain o1 where att: "attach builtins \<lparr>props = Map.empty, extensible = True\<rparr> = Inr o1"
    using attach_fresh [of "\<lparr>props = Map.empty, extensible = True\<rparr>" builtins] by auto
  then obtain ob steps where
    e: "extend (\<lambda>ob d. [(''one'', Given JNull), (''custom'', Given (JNum 1))])
      demo_ctx \<lparr>props = Map.empty, extensible = True\<rparr> = Inr (ob, steps)"
    by (simp add: extend_def Let_def)
  have "''one'' \<in> set builtins" by (simp add: builtins_def)
  with protocol_locked [OF e] e show ?thesis by simp
qed

section \<open>Duplicate registrations\<close>

text \<open>
  Claim C9, as stated, fails in one point: the warning is not emitted once per
  connection target. Three handles for one target give two warnings.
\<close>

theorem duplicate_warns_every_time_counterexample:
  "(let s = (\<lambda>v. case v of JStr t \<Rightarrow> t | _ \<Rightarrow> ''null'');
        c = JStr ''postgres://localhost/db'';
        opts = \<lparr>noWarnings = False\<rparr>;
        (r1, w1) = checkForDuplicates s {} c opts;
        (r2, w2) = checkForDuplicates s r1 c opts;
        (r3, w3) = checkForDuplicates s r2 c opts
    in w1 @ w2 @ w3) =
   [''WARNING: Creating a duplicate database object for the same connection.'',
    ''WARNING: Creating a duplicate database object for the same connection.'']"
  by (simp add: checkForDuplicates_def)

text \<open>
  Claim C9, amended. The registry is keyed by \<^verbatim>\<open>JSON.stringify(cn)\<close>. Creating a
  handle for a target that is already registered emits the warning on every such
  creation, unless \<^verbatim>\<open>noWarnings\<close> is set, and leaves the registry as it is;
  creating one for a target that is not registered registers it and emits nothing.
  The call always returns, with the target registered.
\<close>

theorem duplicate_guard:
  "(stringify c \<in> dbObjects \<and> \<not> noWarnings opts \<longrightarrow>
      checkForDuplicates stringify dbObjects c opts =
        (dbObjects, [''WARNING: Creating a duplicate database object for the same connection.'']))
   \<and> (stringify c \<in> dbObjects \<and> noWarnings opts \<longrightarrow>
      checkForDuplicates stringify dbObjects c opts = (dbObjects, []))
   \<and> (stringify c \<notin> dbObjects \<longrightarrow>
      checkForDuplicates stringify dbObjects c opts = (insert (stringify c) dbObjects, []))
   \<and> stringify c \<in> fst (checkForDuplicates stringify dbObjects c opts)"
  by (simp add: checkForDuplicates_def Let_def)

theorem duplicate_guard_witness:
  "checkForDuplicates (\<lambda>v. ''k'') {''k''} JNull \<lparr>noWarnings = False\<rparr> =
     ({''k''}, [''WARNING: Creating a duplicate database object for the same connection.''])
   \<and> checkForDuplicates (\<lambda>v. ''k'') {''k''} JNull \<lparr>noWarnings = True\<rparr> = ({''k''}, [])
   \<and> checkForDuplicates (\<lambda>v. ''k'') {} JNull \<lparr>noWarnings = False\<rparr> = ({''k''}, [])"
  using duplicate_guard [of "\<lambda>v. ''k''" JNull "{''k''}" "\<lparr>noWarnings = False\<rparr>"]
    duplicate_guard [of "\<lambda>v. ''k''" JNull "{''k''}" "\<lparr>noWarnings = True\<rparr>"]
    duplicate_guard [of "\<lambda>v. ''k''" JNull "{}" "\<lparr>noWarnings = False\<rparr>"]
  by simp


end
